theory Spec2Isabelle
  imports Main "HOL-Library.Word"
begin

section \<open>Board bring-up of the josh flight computer (stm32\_bringup.c)\<close>

text \<open>
  The development embeds \<^verbatim>\<open>partition_handler\<close> and \<^verbatim>\<open>stm32_bringup\<close> of
  \<^verbatim>\<open>boards/arm/stm32h7/josh/src/stm32_bringup.c\<close>.  The target is a 32-bit
  Cortex-M7: \<^verbatim>\<open>int\<close> and \<^verbatim>\<open>size_t\<close> are 32-bit words, \<^verbatim>\<open>uint8_t\<close> is
  an 8-bit word.  Calls into the operating system (logging, mounting, the partition parser,
  the block-partition registrar, the I2C and sensor drivers) are recorded as events of a
  trace, in program order; what they return is read from an environment.
\<close>

subsection \<open>Constants and data\<close>

definition OK :: "32 word" where
  "OK = 0"

text \<open>\<^verbatim>\<open>ENOENT\<close> of \<^verbatim>\<open>errno.h\<close>: "No such file or directory", number 2.\<close>

definition ENOENT :: "32 word" where
  "ENOENT = 2"

text \<open>
  Modelled from the spec: \<^verbatim>\<open>struct partition_s\<close> of \<^verbatim>\<open>nuttx/fs/partition.h\<close> is not
  part of the sources; the fields the handler reads are the partition's index, its first
  block and its number of blocks.
\<close>

record partition_s =
  index :: "32 word"
  firstblock :: "32 word"
  nblocks :: "32 word"

text \<open>\<^verbatim>\<open>typedef struct { int partition_num; uint8_t err; } partition_state_t;\<close>\<close>

record partition_state_t =
  partition_num :: "32 word"
  err :: "8 word"

subsection \<open>Observable events\<close>

text \<open>One constructor per log statement of the file, with the values it prints.\<close>

datatype logmsg =
    Info_num_of_sectors "32 word"
  | Err_failed_to_get_i2c "32 word"
  | Info_i2c_bus_initialized "32 word"
  | Err_failed_to_register_i2c "32 word" "32 word"
  | Info_registering_i2ctool
  | Err_failed_to_register_ms5607 "32 word"
  | Err_failed_to_mount_proc "32 word"
  | Err_failed_to_register_sd "32 word"
  | Warn_partition_did_not_register "32 word"
  | Info_partition_registered "32 word"
  | Err_could_not_mount_fat "32 word"

text \<open>
  One constructor per external call.  \<^verbatim>\<open>Register_blockpartition\<close> carries the five
  arguments of the call and, last, the status the registrar answered.
  \<^verbatim>\<open>Parse_block_partition\<close> carries the device name and the position in the array
  \<^verbatim>\<open>partitions\<close> of the request passed as callback argument.
  \<^verbatim>\<open>Nx_mount\<close> carries source, target, file system type, flags and data.
\<close>

datatype event =
    Log logmsg
  | I2cbus_initialize "32 word"
  | I2cbus_uninitialize "32 word"
  | I2c_register "32 word"
  | Ms56xx_register
  | Sdio_initialize
  | Parse_block_partition string nat
  | Register_blockpartition string "32 word" string "32 word" "32 word" "32 word"
  | Nx_mount "string option" string string "32 word" "string option"

text \<open>
  What the external collaborators answer.  An answer depends on the arguments of the call
  only (for the parser: on which of the two scans it is); the code never looks at the status
  of the registrar, and calls every other collaborator with fixed arguments.
\<close>

record env =
  i2cbus_initialize_ok :: "32 word \<Rightarrow> bool"
  i2c_register_ret :: "32 word \<Rightarrow> 32 word"
  ms56xx_register_ret :: "32 word"
  sdio_initialize_ret :: "32 word"
  partition_table :: "nat \<Rightarrow> partition_s list"
  register_blockpartition_ret :: "string \<Rightarrow> 32 word \<Rightarrow> 32 word \<Rightarrow> 32 word"
  nx_mount_ret :: "string option \<Rightarrow> string \<Rightarrow> string \<Rightarrow> 32 word"

text \<open>The preprocessor configuration the file is compiled under.\<close>

record config =
  CONFIG_I2C_AND_SYSTEM_I2CTOOL :: bool
  CONFIG_STM32H7_I2C1 :: bool
  CONFIG_STM32H7_I2C2 :: bool
  CONFIG_STM32H7_I2C3 :: bool
  CONFIG_STM32H7_I2C4 :: bool
  CONFIG_SENSORS_MS56XX :: bool
  CONFIG_FS_PROCFS :: bool
  STM32_PROCFS_MOUNTPOINT :: string
  CONFIG_STM32H7_SDMMC :: bool

subsection \<open>The partition callback\<close>

text \<open>
  \<^verbatim>\<open>devname[sizeof(devname) - 2] = partition_num + 48\<close>: the array holds the 13
  characters of the template and the terminating NUL, so the assignment writes position 12,
  the low byte of the sum.
\<close>

definition devname_template :: string where
  "devname_template = ''/dev/mmcsd0p0''"

definition partition_handler ::
    "env \<Rightarrow> partition_s \<Rightarrow> partition_state_t \<Rightarrow> partition_state_t \<times> event list" where
  "partition_handler e part partition_handler_state =
     (if sint (partition_num partition_handler_state) < 10 \<and>
         index part = partition_num partition_handler_state
      then
        let devname = devname_template
                [length devname_template + 1 - 2 :=
                   char_of (uint (partition_num partition_handler_state + 48))]
        in (partition_handler_state\<lparr>err := 0\<rparr>,
            [Log (Info_num_of_sectors (nblocks part)),
             Register_blockpartition devname 0 ''/dev/mmcsd0'' (firstblock part) (nblocks part)
               (register_blockpartition_ret e devname (firstblock part) (nblocks part))])
      else (partition_handler_state, []))"

text \<open>
  Modelled from the spec: \<^verbatim>\<open>parse_block_partition\<close> belongs to the operating system; it
  "invokes callback(partition\_info, callback\_state) once per physical partition found".
  The partitions found are given as a list, the callback is applied to them in order on the
  same state.
\<close>

fun parse_block_partition ::
    "partition_s list \<Rightarrow> (partition_s \<Rightarrow> 's \<Rightarrow> 's \<times> event list) \<Rightarrow> 's \<Rightarrow> 's \<times> event list" where
  "parse_block_partition [] handler arg = (arg, [])"
| "parse_block_partition (part # parts) handler arg =
     (let (arg1, ev1) = handler part arg;
          (arg2, ev2) = parse_block_partition parts handler arg1
      in (arg2, ev1 @ ev2))"

subsection \<open>The I2C tool\<close>

definition stm32_i2c_register :: "env \<Rightarrow> 32 word \<Rightarrow> event list" where
  "stm32_i2c_register e bus =
     I2cbus_initialize bus #
     (if \<not> i2cbus_initialize_ok e bus then [Log (Err_failed_to_get_i2c bus)]
      else
        let ret = i2c_register_ret e bus
        in [Log (Info_i2c_bus_initialized bus), I2c_register bus] @
           (if sint ret < 0
            then [Log (Err_failed_to_register_i2c bus ret), I2cbus_uninitialize bus]
            else []))"

definition stm32_i2ctool :: "config \<Rightarrow> env \<Rightarrow> event list" where
  "stm32_i2ctool c e =
     Log Info_registering_i2ctool #
     (if CONFIG_STM32H7_I2C1 c then stm32_i2c_register e 1 else []) @
     (if CONFIG_STM32H7_I2C2 c then stm32_i2c_register e 2 else []) @
     (if CONFIG_STM32H7_I2C3 c then stm32_i2c_register e 3 else []) @
     (if CONFIG_STM32H7_I2C4 c then stm32_i2c_register e 4 else [])"

subsection \<open>Bring-up\<close>

text \<open>The initializer of the static array \<^verbatim>\<open>partitions\<close>.\<close>

definition partitions_init :: "partition_state_t list" where
  "partitions_init =
     [\<lparr>partition_num = 0, err = ucast ENOENT\<rparr>,
      \<lparr>partition_num = 1, err = ucast ENOENT\<rparr>]"

text \<open>
  \<^verbatim>\<open>for (int i = 0; i < 2; i++)\<close>: the loop from counter \<open>i\<close> on, over the array
  \<^verbatim>\<open>partitions\<close>; it returns the array and the events of the remaining iterations.
  The array has two elements, so the loop reads and writes it in range.
\<close>

function discovery_loop ::
    "env \<Rightarrow> nat \<Rightarrow> partition_state_t list \<Rightarrow> partition_state_t list \<times> event list" where
  "discovery_loop e i partitions =
     (if i < 2 then
        let (p, ev) = parse_block_partition (partition_table e i) (partition_handler e)
                        (partitions ! i);
            partitions1 = partitions[i := p];
            msg = (if ucast (err (partitions1 ! i)) = ENOENT
                   then Warn_partition_did_not_register (partition_num (partitions1 ! i))
                   else Info_partition_registered (partition_num (partitions1 ! i)));
            (partitions2, ev2) = discovery_loop e (i + 1) partitions1
        in (partitions2, Parse_block_partition ''/dev/mmcsd0'' i # ev @ Log msg # ev2)
      else (partitions, []))"
  by pat_completeness auto
termination
  by (relation "measure (\<lambda>(e, i, partitions). 2 - i)") auto

text \<open>The sensor and procfs sections: the new value of \<^verbatim>\<open>ret\<close> and the events.\<close>

definition sensor_section :: "config \<Rightarrow> env \<Rightarrow> 32 word \<Rightarrow> 32 word \<times> event list" where
  "sensor_section c e ret0 =
     (if CONFIG_SENSORS_MS56XX c then
        let ret = ms56xx_register_ret e
        in (ret, [I2cbus_initialize 1, Ms56xx_register] @
                 (if sint ret < 0 then [Log (Err_failed_to_register_ms5607 ret)] else []))
      else (ret0, []))"

definition procfs_section :: "config \<Rightarrow> env \<Rightarrow> 32 word \<Rightarrow> 32 word \<times> event list" where
  "procfs_section c e ret0 =
     (if CONFIG_FS_PROCFS c then
        let ret = nx_mount_ret e None (STM32_PROCFS_MOUNTPOINT c) ''procfs''
        in (ret, Nx_mount None (STM32_PROCFS_MOUNTPOINT c) ''procfs'' 0 None #
                 (if sint ret < 0 then [Log (Err_failed_to_mount_proc ret)] else []))
      else (ret0, []))"

text \<open>
  \<^verbatim>\<open>int stm32_bringup(void)\<close>.  The static array \<^verbatim>\<open>partitions\<close> outlives the call:
  the function takes its current content and returns the returned status, the content left
  behind, and the events.
\<close>

definition stm32_bringup ::
    "config \<Rightarrow> env \<Rightarrow> partition_state_t list \<Rightarrow>
     32 word \<times> partition_state_t list \<times> event list" where
  "stm32_bringup c e partitions =
     (let ret = OK;
          ev_i2c = (if CONFIG_I2C_AND_SYSTEM_I2CTOOL c then stm32_i2ctool c e else []);
          (ret, ev_sensor) = sensor_section c e ret;
          (ret, ev_procfs) = procfs_section c e ret;
          ev_aux = ev_i2c @ ev_sensor @ ev_procfs
      in if CONFIG_STM32H7_SDMMC c then
           let ret = sdio_initialize_ret e;
               ev_sdio = Sdio_initialize #
                   (if sint ret < 0 then [Log (Err_failed_to_register_sd ret)] else []);
               (partitions1, ev_disc) = discovery_loop e 0 partitions;
               ret = nx_mount_ret e (Some ''/dev/mmcsd0p0'') ''/mnt/usrfs'' ''vfat'';
               ev_mount = [Nx_mount (Some ''/dev/mmcsd0p0'') ''/mnt/usrfs'' ''vfat'' 0 None]
           in if ret \<noteq> 0
              then (ret, partitions1,
                    ev_aux @ ev_sdio @ ev_disc @ ev_mount @ [Log (Err_could_not_mount_fat ret)])
              else (OK, partitions1, ev_aux @ ev_sdio @ ev_disc @ ev_mount)
         else (OK, partitions, ev_aux))"

subsection \<open>Reading a trace\<close>

text \<open>Which events are calls of the registrar, of the parser, of the mount operation.\<close>

fun is_register :: "event \<Rightarrow> bool" where
  "is_register (Register_blockpartition name minor parent first n st) = True"
| "is_register _ = False"

fun is_parse :: "event \<Rightarrow> bool" where
  "is_parse (Parse_block_partition dev i) = True"
| "is_parse _ = False"

fun is_mount :: "event \<Rightarrow> bool" where
  "is_mount (Nx_mount src tgt fs fl d) = True"
| "is_mount _ = False"

text \<open>The two messages the loop prints about a request after its scan.\<close>

fun is_report :: "event \<Rightarrow> bool" where
  "is_report (Log (Warn_partition_did_not_register n)) = True"
| "is_report (Log (Info_partition_registered n)) = True"
| "is_report _ = False"

text \<open>The names under which sub-devices were registered, in order.\<close>

fun registered_devices :: "event list \<Rightarrow> string list" where
  "registered_devices [] = []"
| "registered_devices (Register_blockpartition name minor parent first n st # evs) =
     name # registered_devices evs"
| "registered_devices (ev # evs) = registered_devices evs"

text \<open>The name the callback builds for a request, and the message the loop prints for it.\<close>

definition devname_of :: "32 word \<Rightarrow> string" where
  "devname_of n = ''/dev/mmcsd0p'' @ [char_of (uint (n + 48))]"

definition report :: "partition_state_t \<Rightarrow> logmsg" where
  "report p =
     (if ucast (err p) = ENOENT then Warn_partition_did_not_register (partition_num p)
      else Info_partition_registered (partition_num p))"

text \<open>Whether \<^verbatim>\<open>stm32_i2ctool\<close> is compiled in and registers the given bus.\<close>

definition i2c_bus_enabled :: "config \<Rightarrow> 32 word \<Rightarrow> bool" where
  "i2c_bus_enabled c bus =
     (CONFIG_I2C_AND_SYSTEM_I2CTOOL c \<and>
      (bus = 1 \<and> CONFIG_STM32H7_I2C1 c \<or> bus = 2 \<and> CONFIG_STM32H7_I2C2 c \<or>
       bus = 3 \<and> CONFIG_STM32H7_I2C3 c \<or> bus = 4 \<and> CONFIG_STM32H7_I2C4 c))"

text \<open>The events of the sections before the SD card: I2C tool, sensor, procfs.\<close>

definition aux_events :: "config \<Rightarrow> env \<Rightarrow> event list" where
  "aux_events c e =
     (if CONFIG_I2C_AND_SYSTEM_I2CTOOL c then stm32_i2ctool c e else []) @
     snd (sensor_section c e OK) @
     snd (procfs_section c e (fst (sensor_section c e OK)))"

subsection \<open>Example configurations and environments\<close>

text \<open>
  Everything enabled, I2C bus 1 only.  In \<open>env_ok\<close> every call succeeds and the card
  holds one partition, index 0, blocks 100 to 499.  The other environments change it:
  the controller fails; no card at all (controller and mount fail with \<open>ENODEV\<close>, no
  partition is reported); every auxiliary step fails; the registrar answers \<open>ENOMEM\<close>;
  the table reports index 0 twice.
\<close>

definition cfg_all :: config where
  "cfg_all = \<lparr>CONFIG_I2C_AND_SYSTEM_I2CTOOL = True, CONFIG_STM32H7_I2C1 = True,
     CONFIG_STM32H7_I2C2 = False, CONFIG_STM32H7_I2C3 = False, CONFIG_STM32H7_I2C4 = False,
     CONFIG_SENSORS_MS56XX = True, CONFIG_FS_PROCFS = True, STM32_PROCFS_MOUNTPOINT = ''/proc'',
     CONFIG_STM32H7_SDMMC = True\<rparr>"

definition env_ok :: env where
  "env_ok = \<lparr>i2cbus_initialize_ok = (\<lambda>bus. True), i2c_register_ret = (\<lambda>bus. 0),
     ms56xx_register_ret = 0, sdio_initialize_ret = 0,
     partition_table = (\<lambda>i. [\<lparr>index = 0, firstblock = 100, nblocks = 400\<rparr>]),
     register_blockpartition_ret = (\<lambda>name first n. 0),
     nx_mount_ret = (\<lambda>src tgt fs. 0)\<rparr>"

definition env_sdio_fail :: env where
  "env_sdio_fail = env_ok\<lparr>sdio_initialize_ret := - 19\<rparr>"

definition env_no_card :: env where
  "env_no_card = env_ok\<lparr>sdio_initialize_ret := - 19, partition_table := (\<lambda>i. []),
     nx_mount_ret := (\<lambda>src tgt fs. if fs = ''vfat'' then - 19 else 0)\<rparr>"

definition env_aux_fail :: env where
  "env_aux_fail = env_ok\<lparr>i2cbus_initialize_ok := (\<lambda>bus. False),
     ms56xx_register_ret := - 5,
     nx_mount_ret := (\<lambda>src tgt fs. if fs = ''procfs'' then - 12 else 0)\<rparr>"

definition env_register_fail :: env where
  "env_register_fail = env_ok\<lparr>register_blockpartition_ret := (\<lambda>name first n. - 12)\<rparr>"

definition env_duplicate :: env where
  "env_duplicate = env_ok\<lparr>partition_table :=
     (\<lambda>i. [\<lparr>index = 0, firstblock = 100, nblocks = 400\<rparr>,
           \<lparr>index = 0, firstblock = 500, nblocks = 200\<rparr>])\<rparr>"

text \<open>
  As \<open>env_aux_fail\<close>, but the I2C bus is obtained and its registration fails, and the
  storage controller fails too.
\<close>

definition env_aux_fail_late :: env where
  "env_aux_fail_late = env_aux_fail\<lparr>i2cbus_initialize_ok := (\<lambda>bus. True),
     i2c_register_ret := (\<lambda>bus. - 5), sdio_initialize_ret := - 19\<rparr>"

section \<open>Properties\<close>

declare discovery_loop.simps [simp del]

lemmas example_defs = cfg_all_def env_ok_def env_sdio_fail_def env_no_card_def
  env_aux_fail_def env_register_fail_def env_duplicate_def partitions_init_def

lemmas eval_defs = stm32_bringup_def discovery_loop.simps partition_handler_def
  devname_template_def sensor_section_def procfs_section_def stm32_i2ctool_def
  stm32_i2c_register_def OK_def ENOENT_def char_of_def

subsection \<open>One scan of the table\<close>

text \<open>The callback never changes the expected index; a scan clears \<open>err\<close> exactly when
  some entry is accepted, and otherwise leaves it alone.\<close>

lemma partition_handler_num:
  "partition_num (fst (partition_handler e part s)) = partition_num s"
  by (simp add: partition_handler_def Let_def)

lemma parse_partition_num:
  "partition_num (fst (parse_block_partition tbl (partition_handler e) s)) = partition_num s"
  by (induction tbl arbitrary: s) (simp_all add: split_def Let_def partition_handler_num)

lemma parse_err:
  "err (fst (parse_block_partition tbl (partition_handler e) s)) =
     (if sint (partition_num s) < 10 \<and> (\<exists>p\<in>set tbl. index p = partition_num s)
      then 0 else err s)"
proof (induction tbl arbitrary: s)
  case Nil
  show ?case by simp
next
  case (Cons p tbl)
  show ?case
    by (simp add: split_def Let_def Cons.IH partition_handler_num)
       (auto simp: partition_handler_def Let_def)
qed

lemma report_parse:
  "report (fst (parse_block_partition tbl (partition_handler e) s)) =
     (if sint (partition_num s) < 10 \<and> (\<exists>p\<in>set tbl. index p = partition_num s)
         \<or> ucast (err s) \<noteq> ENOENT
      then Info_partition_registered (partition_num s)
      else Warn_partition_did_not_register (partition_num s))"
  by (simp add: report_def parse_err parse_partition_num ENOENT_def)

lemma parse_register_count:
  "length (filter is_register (snd (parse_block_partition tbl (partition_handler e) s))) =
     (if sint (partition_num s) < 10
      then length (filter (\<lambda>p. index p = partition_num s) tbl) else 0)"
proof (induction tbl arbitrary: s)
  case Nil
  show ?case by simp
next
  case (Cons p tbl)
  show ?case
    by (simp add: split_def Let_def Cons.IH partition_handler_num)
       (auto simp: partition_handler_def Let_def)
qed

lemma registered_devices_append:
  "registered_devices (xs @ ys) = registered_devices xs @ registered_devices ys"
  by (induction xs rule: registered_devices.induct) simp_all

lemma parse_registered_devices:
  "registered_devices (snd (parse_block_partition tbl (partition_handler e) s)) =
     (if sint (partition_num s) < 10
      then replicate (length (filter (\<lambda>p. index p = partition_num s) tbl))
             (devname_of (partition_num s))
      else [])"
proof (induction tbl arbitrary: s)
  case Nil
  show ?case by simp
next
  case (Cons p tbl)
  show ?case
    by (simp add: split_def Let_def Cons.IH partition_handler_num registered_devices_append)
       (simp add: partition_handler_def Let_def devname_template_def devname_of_def)
qed

lemma distinct_filter_le_1:
  "distinct (map f xs) \<Longrightarrow> length (filter (\<lambda>x. f x = a) xs) \<le> 1"
  by (induction xs) (auto simp: filter_empty_conv image_iff)

text \<open>The digit written into the name, for the indices 0 to 9.\<close>

lemma digit_char:
  assumes "i < 10"
  shows "char_of (uint (of_nat i + 48 :: 32 word)) = ''0123456789'' ! i"
proof -
  from assms have "i \<in> {0, 1, 2, 3, 4, 5, 6, 7, 8, 9}" by auto
  then show ?thesis by (auto simp: char_of_def)
qed

lemma sint_digit:
  assumes "i < 10"
  shows "sint (of_nat i :: 32 word) = int i"
proof -
  from assms have "i \<in> {0, 1, 2, 3, 4, 5, 6, 7, 8, 9}" by auto
  then show ?thesis by auto
qed

subsection \<open>The loop and the bring-up function, unfolded\<close>

lemma discovery_loop_unfold:
  "discovery_loop e 0 ps =
     (let r0 = parse_block_partition (partition_table e 0) (partition_handler e) (ps ! 0);
          ps1 = ps[0 := fst r0];
          r1 = parse_block_partition (partition_table e 1) (partition_handler e) (ps1 ! 1);
          ps2 = ps1[1 := fst r1]
      in (ps2,
          Parse_block_partition ''/dev/mmcsd0'' 0 # snd r0 @
          Log (if ucast (err (ps1 ! 0)) = ENOENT
               then Warn_partition_did_not_register (partition_num (ps1 ! 0))
               else Info_partition_registered (partition_num (ps1 ! 0))) #
          Parse_block_partition ''/dev/mmcsd0'' 1 # snd r1 @
          [Log (if ucast (err (ps2 ! 1)) = ENOENT
               then Warn_partition_did_not_register (partition_num (ps2 ! 1))
               else Info_partition_registered (partition_num (ps2 ! 1)))]))"
  by (simp add: discovery_loop.simps [of e 0] discovery_loop.simps [of e 1]
      discovery_loop.simps [of e "Suc (Suc 0)"] discovery_loop.simps [of e "Suc 0"]
      split_def Let_def)

lemma discovery_loop_pair:
  "discovery_loop e 0 [a, b] =
     ([fst (parse_block_partition (partition_table e 0) (partition_handler e) a),
       fst (parse_block_partition (partition_table e 1) (partition_handler e) b)],
      Parse_block_partition ''/dev/mmcsd0'' 0 #
      snd (parse_block_partition (partition_table e 0) (partition_handler e) a) @
      Log (report (fst (parse_block_partition (partition_table e 0) (partition_handler e) a))) #
      Parse_block_partition ''/dev/mmcsd0'' 1 #
      snd (parse_block_partition (partition_table e 1) (partition_handler e) b) @
      [Log (report (fst (parse_block_partition (partition_table e 1) (partition_handler e) b)))])"
  by (simp add: discovery_loop_unfold Let_def report_def)

lemma stm32_bringup_unfold:
  "stm32_bringup c e ps =
     (if CONFIG_STM32H7_SDMMC c then
        let r = nx_mount_ret e (Some ''/dev/mmcsd0p0'') ''/mnt/usrfs'' ''vfat''
        in (r, fst (discovery_loop e 0 ps),
            aux_events c e @
            Sdio_initialize #
            (if sint (sdio_initialize_ret e) < 0
             then [Log (Err_failed_to_register_sd (sdio_initialize_ret e))] else []) @
            snd (discovery_loop e 0 ps) @
            Nx_mount (Some ''/dev/mmcsd0p0'') ''/mnt/usrfs'' ''vfat'' 0 None #
            (if r \<noteq> 0 then [Log (Err_could_not_mount_fat r)] else []))
      else (OK, ps, aux_events c e))"
  by (simp add: stm32_bringup_def aux_events_def split_def Let_def OK_def)

lemma partitions_after_bringup:
  assumes "CONFIG_STM32H7_SDMMC c"
  shows "fst (snd (stm32_bringup c e [a, b])) =
     [fst (parse_block_partition (partition_table e 0) (partition_handler e) a),
      fst (parse_block_partition (partition_table e 1) (partition_handler e) b)]"
  using assms by (simp add: stm32_bringup_unfold Let_def discovery_loop_pair)

subsection \<open>Which sections issue which calls\<close>

lemma i2c_register_in_i2ctool:
  assumes "i2c_bus_enabled c bus"
  shows "set (stm32_i2c_register e bus) \<subseteq> set (stm32_i2ctool c e)"
  using assms by (auto simp: i2c_bus_enabled_def stm32_i2ctool_def)

lemma i2ctool_in_bringup:
  assumes "CONFIG_I2C_AND_SYSTEM_I2CTOOL c"
  shows "set (stm32_i2ctool c e) \<subseteq> set (snd (snd (stm32_bringup c e ps)))"
  using assms by (auto simp: stm32_bringup_unfold aux_events_def Let_def)

lemma i2c_register_in_bringup:
  assumes "i2c_bus_enabled c bus"
  shows "set (stm32_i2c_register e bus) \<subseteq> set (snd (snd (stm32_bringup c e ps)))"
proof -
  from assms have "CONFIG_I2C_AND_SYSTEM_I2CTOOL c" by (simp add: i2c_bus_enabled_def)
  then have "set (stm32_i2ctool c e) \<subseteq> set (snd (snd (stm32_bringup c e ps)))"
    by (rule i2ctool_in_bringup)
  with i2c_register_in_i2ctool [OF assms] show ?thesis by blast
qed

lemma filter_mount_i2c_register: "filter is_mount (stm32_i2c_register e bus) = []"
  by (simp add: stm32_i2c_register_def Let_def)

lemma filter_mount_i2ctool: "filter is_mount (stm32_i2ctool c e) = []"
  by (simp add: stm32_i2ctool_def filter_mount_i2c_register)

lemma filter_mount_aux:
  "filter is_mount (aux_events c e) =
     (if CONFIG_FS_PROCFS c then [Nx_mount None (STM32_PROCFS_MOUNTPOINT c) ''procfs'' 0 None]
      else [])"
  by (simp add: aux_events_def filter_mount_i2ctool sensor_section_def procfs_section_def Let_def)

lemma filter_mount_parse:
  "filter is_mount (snd (parse_block_partition tbl (partition_handler e) s)) = []"
  by (induction tbl arbitrary: s) (simp_all add: split_def Let_def partition_handler_def)

lemma filter_mount_discovery: "filter is_mount (snd (discovery_loop e 0 [a, b])) = []"
  by (simp add: discovery_loop_pair filter_mount_parse)

lemma filter_parse_i2c_register: "filter is_parse (stm32_i2c_register e bus) = []"
  by (simp add: stm32_i2c_register_def Let_def)

lemma filter_parse_i2ctool: "filter is_parse (stm32_i2ctool c e) = []"
  by (simp add: stm32_i2ctool_def filter_parse_i2c_register)

lemma filter_parse_aux: "filter is_parse (aux_events c e) = []"
  by (simp add: aux_events_def filter_parse_i2ctool sensor_section_def procfs_section_def Let_def)

lemma filter_parse_parse:
  "filter is_parse (snd (parse_block_partition tbl (partition_handler e) s)) = []"
  by (induction tbl arbitrary: s) (simp_all add: split_def Let_def partition_handler_def)

lemma filter_parse_discovery:
  "filter is_parse (snd (discovery_loop e 0 [a, b])) =
     [Parse_block_partition ''/dev/mmcsd0'' 0, Parse_block_partition ''/dev/mmcsd0'' 1]"
  by (simp add: discovery_loop_pair filter_parse_parse)

lemma filter_report_i2c_register: "filter is_report (stm32_i2c_register e bus) = []"
  by (simp add: stm32_i2c_register_def Let_def)

lemma filter_report_i2ctool: "filter is_report (stm32_i2ctool c e) = []"
  by (simp add: stm32_i2ctool_def filter_report_i2c_register)

lemma filter_report_aux: "filter is_report (aux_events c e) = []"
  by (simp add: aux_events_def filter_report_i2ctool sensor_section_def procfs_section_def Let_def)

lemma filter_report_parse:
  "filter is_report (snd (parse_block_partition tbl (partition_handler e) s)) = []"
  by (induction tbl arbitrary: s) (simp_all add: split_def Let_def partition_handler_def)

lemma is_report_report: "is_report (Log (report p))"
  by (simp add: report_def)

lemma filter_report_bringup:
  assumes "CONFIG_STM32H7_SDMMC c"
  shows "filter is_report (snd (snd (stm32_bringup c e [a, b]))) =
     [Log (report (fst (parse_block_partition (partition_table e 0) (partition_handler e) a))),
      Log (report (fst (parse_block_partition (partition_table e 1) (partition_handler e) b)))]"
  using assms
  by (simp add: stm32_bringup_unfold Let_def filter_report_aux discovery_loop_pair
      filter_report_parse is_report_report)

section \<open>The claims\<close>

text \<open>
  In the theorems below the static array \<^verbatim>\<open>partitions\<close> is the two-element list
  \<open>[a, b]\<close>; on the first call of \<^verbatim>\<open>stm32_bringup\<close> it is \<open>partitions_init\<close>.
\<close>

subsection \<open>C1: failure of the storage controller\<close>

text \<open>
  Claim C1.  The specification says that a negative status of
  \<^verbatim>\<open>stm32_sdio_initialize\<close> aborts the bring-up and is returned.  The code only logs
  it.  What holds: when \<^verbatim>\<open>stm32_sdio_initialize\<close> returns a negative status,
  \<^verbatim>\<open>stm32_bringup\<close> logs the failure and goes on; the discovery loop runs, the
  user-data mount is attempted, and the value returned is the status of that mount (\<open>OK\<close>
  when it succeeds), not the status of the controller.
\<close>

theorem sdio_failure_logged_and_continues:
  assumes "CONFIG_STM32H7_SDMMC c" and "sint (sdio_initialize_ret e) < 0"
  shows "fst (stm32_bringup c e [a, b]) =
           nx_mount_ret e (Some ''/dev/mmcsd0p0'') ''/mnt/usrfs'' ''vfat'' \<and>
         (\<exists>post. snd (snd (stm32_bringup c e [a, b])) =
            aux_events c e @
            [Sdio_initialize, Log (Err_failed_to_register_sd (sdio_initialize_ret e))] @
            snd (discovery_loop e 0 [a, b]) @
            [Nx_mount (Some ''/dev/mmcsd0p0'') ''/mnt/usrfs'' ''vfat'' 0 None] @ post)"
  using assms by (simp add: stm32_bringup_unfold Let_def)

theorem sdio_failure_logged_and_continues_witness:
  "CONFIG_STM32H7_SDMMC cfg_all \<and> sint (sdio_initialize_ret env_no_card) < 0 \<and>
   fst (stm32_bringup cfg_all env_no_card partitions_init) = - 19"
proof -
  have c: "CONFIG_STM32H7_SDMMC cfg_all" by (simp add: cfg_all_def)
  have s: "sint (sdio_initialize_ret env_no_card) < 0" by (simp add: env_no_card_def env_ok_def)
  from sdio_failure_logged_and_continues [OF c s] c s
  show ?thesis by (simp add: env_no_card_def env_ok_def partitions_init_def)
qed

text \<open>
  Counterexample to claim C1 as written: the controller fails with \<open>- 19\<close>, the card
  nevertheless shows its partition and the mount succeeds.  The function returns 0, after
  having scanned the table, registered the partition and mounted it.
\<close>

theorem sdio_failure_returned_counterexample:
  "CONFIG_STM32H7_SDMMC cfg_all \<and> sint (sdio_initialize_ret env_sdio_fail) < 0 \<and>
   fst (stm32_bringup cfg_all env_sdio_fail partitions_init) \<noteq> sdio_initialize_ret env_sdio_fail \<and>
   Parse_block_partition ''/dev/mmcsd0'' 0
     \<in> set (snd (snd (stm32_bringup cfg_all env_sdio_fail partitions_init))) \<and>
   Register_blockpartition ''/dev/mmcsd0p0'' 0 ''/dev/mmcsd0'' 100 400 0
     \<in> set (snd (snd (stm32_bringup cfg_all env_sdio_fail partitions_init))) \<and>
   Nx_mount (Some ''/dev/mmcsd0p0'') ''/mnt/usrfs'' ''vfat'' 0 None
     \<in> set (snd (snd (stm32_bringup cfg_all env_sdio_fail partitions_init)))"
  by (simp add: example_defs eval_defs)

subsection \<open>C2: a registration the registrar rejects\<close>

text \<open>
  Claim C2.  The specification says that a rejected registration leaves an error code other
  than \<open>ENOENT\<close> in the request and that the request is marked found only when the
  registration succeeded.  The callback drops the status of
  \<^verbatim>\<open>register_blockpartition\<close>: with a partition 0 on the card and a registrar that
  answers \<open>- 12\<close>, request 0 ends with \<open>err = 0\<close> and the loop prints "Partition 0
  registered!".
\<close>

theorem registration_failure_marked_found:
  "sint (register_blockpartition_ret env_register_fail ''/dev/mmcsd0p0'' 100 400) < 0 \<and>
   discovery_loop env_register_fail 0 partitions_init =
     ([\<lparr>partition_num = 0, err = 0\<rparr>, \<lparr>partition_num = 1, err = ucast ENOENT\<rparr>],
      [Parse_block_partition ''/dev/mmcsd0'' 0,
       Log (Info_num_of_sectors 400),
       Register_blockpartition ''/dev/mmcsd0p0'' 0 ''/dev/mmcsd0'' 100 400 (- 12),
       Log (Info_partition_registered 0),
       Parse_block_partition ''/dev/mmcsd0'' 1,
       Log (Warn_partition_did_not_register 1)])"
  by (simp add: example_defs discovery_loop.simps partition_handler_def Let_def
      devname_template_def char_of_def ENOENT_def)

subsection \<open>C3: failure of the mandatory mount\<close>

text \<open>
  Claim C3.  If the mount of \<^verbatim>\<open>/dev/mmcsd0p0\<close> as \<^verbatim>\<open>vfat\<close> at
  \<^verbatim>\<open>/mnt/usrfs\<close> returns a status other than zero, \<^verbatim>\<open>stm32_bringup\<close> returns
  that status; the trace ends with the mount call and its error message, and the only mounts
  ever attempted are the procfs one (when configured) and this one: no power-safe mount.
\<close>

theorem mandatory_mount_failure_aborts:
  assumes "CONFIG_STM32H7_SDMMC c"
    and "nx_mount_ret e (Some ''/dev/mmcsd0p0'') ''/mnt/usrfs'' ''vfat'' = r"
    and "r \<noteq> 0"
  shows "fst (stm32_bringup c e [a, b]) = r \<and>
         (\<exists>pre. snd (snd (stm32_bringup c e [a, b])) =
            pre @ [Nx_mount (Some ''/dev/mmcsd0p0'') ''/mnt/usrfs'' ''vfat'' 0 None,
                   Log (Err_could_not_mount_fat r)]) \<and>
         filter is_mount (snd (snd (stm32_bringup c e [a, b]))) =
           (if CONFIG_FS_PROCFS c
            then [Nx_mount None (STM32_PROCFS_MOUNTPOINT c) ''procfs'' 0 None] else []) @
           [Nx_mount (Some ''/dev/mmcsd0p0'') ''/mnt/usrfs'' ''vfat'' 0 None]"
proof (intro conjI)
  show "fst (stm32_bringup c e [a, b]) = r"
    using assms by (simp add: stm32_bringup_unfold Let_def)
  have "snd (snd (stm32_bringup c e [a, b])) =
      (aux_events c e @ Sdio_initialize #
        (if sint (sdio_initialize_ret e) < 0
         then [Log (Err_failed_to_register_sd (sdio_initialize_ret e))] else []) @
        snd (discovery_loop e 0 [a, b])) @
      [Nx_mount (Some ''/dev/mmcsd0p0'') ''/mnt/usrfs'' ''vfat'' 0 None,
       Log (Err_could_not_mount_fat r)]"
    using assms by (simp add: stm32_bringup_unfold Let_def)
  then show "\<exists>pre. snd (snd (stm32_bringup c e [a, b])) =
      pre @ [Nx_mount (Some ''/dev/mmcsd0p0'') ''/mnt/usrfs'' ''vfat'' 0 None,
             Log (Err_could_not_mount_fat r)]"
    by blast
  show "filter is_mount (snd (snd (stm32_bringup c e [a, b]))) =
      (if CONFIG_FS_PROCFS c
       then [Nx_mount None (STM32_PROCFS_MOUNTPOINT c) ''procfs'' 0 None] else []) @
      [Nx_mount (Some ''/dev/mmcsd0p0'') ''/mnt/usrfs'' ''vfat'' 0 None]"
    using assms
    by (simp add: stm32_bringup_unfold Let_def filter_mount_aux filter_mount_discovery)
qed

theorem mandatory_mount_failure_aborts_witness:
  "CONFIG_STM32H7_SDMMC cfg_all \<and>
   nx_mount_ret env_no_card (Some ''/dev/mmcsd0p0'') ''/mnt/usrfs'' ''vfat'' = - 19 \<and>
   (- 19 :: 32 word) \<noteq> 0 \<and>
   fst (stm32_bringup cfg_all env_no_card partitions_init) = - 19 \<and>
   filter is_mount (snd (snd (stm32_bringup cfg_all env_no_card partitions_init))) =
     [Nx_mount None ''/proc'' ''procfs'' 0 None,
      Nx_mount (Some ''/dev/mmcsd0p0'') ''/mnt/usrfs'' ''vfat'' 0 None]"
proof -
  have c: "CONFIG_STM32H7_SDMMC cfg_all" by (simp add: cfg_all_def)
  have m: "nx_mount_ret env_no_card (Some ''/dev/mmcsd0p0'') ''/mnt/usrfs'' ''vfat'' = - 19"
    by (simp add: env_no_card_def env_ok_def)
  have n: "(- 19 :: 32 word) \<noteq> 0" by simp
  from mandatory_mount_failure_aborts [OF c m n] c m n
  show ?thesis by (simp add: cfg_all_def partitions_init_def)
qed

subsection \<open>C4: how often the registrar runs for one request\<close>

text \<open>
  Claim C4.  The specification says that the registrar runs at most once per request even
  if the table holds several entries with the expected index.  The callback has no such
  guard.  What holds: in one scan the registrar is called once for each entry of the table
  whose index equals the expected index (never when the expected index is 10 or more); so
  at most once when the indices of the table are pairwise distinct.
\<close>

theorem registrar_invoked_once_per_matching_entry:
  "length (filter is_register (snd (parse_block_partition tbl (partition_handler e) s))) =
     (if sint (partition_num s) < 10
      then length (filter (\<lambda>p. index p = partition_num s) tbl) else 0) \<and>
   (distinct (map index tbl) \<longrightarrow>
    length (filter is_register (snd (parse_block_partition tbl (partition_handler e) s))) \<le> 1)"
  using distinct_filter_le_1 [of index tbl "partition_num s"]
  by (simp add: parse_register_count)

theorem registrar_invoked_once_per_matching_entry_witness:
  "distinct (map index (partition_table env_ok 0)) \<and>
   length (filter is_register (snd (parse_block_partition (partition_table env_ok 0)
      (partition_handler env_ok) (partitions_init ! 0)))) = 1"
proof -
  have d: "distinct (map index (partition_table env_ok 0))" by (simp add: env_ok_def)
  from registrar_invoked_once_per_matching_entry
    [of "partition_table env_ok 0" env_ok "partitions_init ! 0"] d
  show ?thesis by (simp add: partitions_init_def env_ok_def)
qed

text \<open>
  Counterexample to claim C4 as written: a table that reports index 0 twice makes the scan
  for request 0 call the registrar twice.
\<close>

theorem duplicate_entries_registered_twice_counterexample:
  "filter is_register
     (snd (parse_block_partition (partition_table env_duplicate 0)
        (partition_handler env_duplicate) (partitions_init ! 0))) =
     [Register_blockpartition ''/dev/mmcsd0p0'' 0 ''/dev/mmcsd0'' 100 400 0,
      Register_blockpartition ''/dev/mmcsd0p0'' 0 ''/dev/mmcsd0'' 500 200 0]"
  by (simp add: example_defs partition_handler_def Let_def devname_template_def char_of_def
      ENOENT_def)

subsection \<open>C5: found means a matching entry was reported\<close>

text \<open>
  Claim C5.  After the loop over the requests 0 and 1, started from the initializer of the
  array, request \<open>i\<close> has \<open>err = 0\<close> if and only if the scan for \<open>i\<close> passed the
  callback an entry with index \<open>i\<close>; it has \<open>err = ENOENT\<close> if and only if no such
  entry was passed; and a sub-device named \<^verbatim>\<open>/dev/mmcsd0p\<close>\<open>i\<close> is registered if and
  only if such an entry was passed.
\<close>

theorem discovery_found_iff_matching_entry:
  assumes "i < 2"
  shows "(err (fst (discovery_loop e 0 partitions_init) ! i) = 0) =
           (\<exists>p\<in>set (partition_table e i). index p = of_nat i) \<and>
         (ucast (err (fst (discovery_loop e 0 partitions_init) ! i)) = ENOENT) =
           (\<not> (\<exists>p\<in>set (partition_table e i). index p = of_nat i)) \<and>
         (''/dev/mmcsd0p'' @ [''01'' ! i]
            \<in> set (registered_devices (snd (discovery_loop e 0 partitions_init)))) =
           (\<exists>p\<in>set (partition_table e i). index p = of_nat i)"
proof -
  from assms have "i = 0 \<or> i = 1" by auto
  then show ?thesis
  proof
    assume "i = 0"
    then show ?thesis
      by (simp add: partitions_init_def discovery_loop_pair parse_err ENOENT_def
          registered_devices_append parse_registered_devices devname_of_def char_of_def
          filter_empty_conv)
  next
    assume "i = 1"
    then show ?thesis
      by (simp add: partitions_init_def discovery_loop_pair parse_err ENOENT_def
          registered_devices_append parse_registered_devices devname_of_def char_of_def
          filter_empty_conv)
  qed
qed

theorem discovery_found_iff_matching_entry_witness:
  "(0::nat) < 2 \<and> (1::nat) < 2 \<and>
   err (fst (discovery_loop env_ok 0 partitions_init) ! 0) = 0 \<and>
   ''/dev/mmcsd0p0'' \<in> set (registered_devices (snd (discovery_loop env_ok 0 partitions_init))) \<and>
   ucast (err (fst (discovery_loop env_ok 0 partitions_init) ! 1)) = ENOENT \<and>
   ''/dev/mmcsd0p1'' \<notin> set (registered_devices (snd (discovery_loop env_ok 0 partitions_init)))"
proof -
  have a: "(0::nat) < 2" and b: "(1::nat) < 2" by simp_all
  from discovery_found_iff_matching_entry [OF a, of env_ok]
    discovery_found_iff_matching_entry [OF b, of env_ok]
  show ?thesis by (simp add: env_ok_def)
qed

subsection \<open>C6: expected indices outside 0 to 9\<close>

text \<open>
  Claim C6.  The specification says that no expected index outside 0 to 9 is ever matched,
  negative ones included.  The guard of the callback is \<^verbatim>\<open>partition_num < 10\<close> alone.
  What holds: for every expected index of 10 or more the callback accepts no entry and
  registers nothing, whatever the table reports; a whole scan leaves the request as it was
  and calls nothing.
\<close>

theorem index_from_ten_never_matched:
  assumes "10 \<le> sint (partition_num s)"
  shows "partition_handler e part s = (s, []) \<and>
         parse_block_partition tbl (partition_handler e) s = (s, [])"
proof
  show h: "partition_handler e part s = (s, [])" for part
    using assms by (simp add: partition_handler_def)
  show "parse_block_partition tbl (partition_handler e) s = (s, [])"
    by (induction tbl) (simp_all add: h)
qed

theorem index_from_ten_never_matched_witness:
  "10 \<le> sint (partition_num \<lparr>partition_num = 10, err = 2\<rparr>) \<and>
   partition_handler env_ok \<lparr>index = 10, firstblock = 0, nblocks = 8\<rparr>
      \<lparr>partition_num = 10, err = 2\<rparr> = (\<lparr>partition_num = 10, err = 2\<rparr>, []) \<and>
   parse_block_partition [\<lparr>index = 10, firstblock = 0, nblocks = 8\<rparr>] (partition_handler env_ok)
      \<lparr>partition_num = 10, err = 2\<rparr> = (\<lparr>partition_num = 10, err = 2\<rparr>, [])"
proof -
  have h: "10 \<le> sint (partition_num \<lparr>partition_num = 10, err = 2\<rparr>)" by simp
  from index_from_ten_never_matched [OF h, of env_ok \<open>\<lparr>index = 10, firstblock = 0, nblocks = 8\<rparr>\<close>
      \<open>[\<lparr>index = 10, firstblock = 0, nblocks = 8\<rparr>]\<close>] h
  show ?thesis by simp
qed

text \<open>
  Counterexample to claim C6 as written: the expected index \<open>- 1\<close> passes the guard; an
  entry whose index field holds the same value is accepted, the request is marked found and
  a sub-device is registered, under the name \<^verbatim>\<open>/dev/mmcsd0p/\<close>.
\<close>

theorem negative_index_matched_counterexample:
  "sint (partition_num \<lparr>partition_num = - 1, err = 2\<rparr>) < 0 \<and>
   partition_handler env_ok \<lparr>index = - 1, firstblock = 0, nblocks = 8\<rparr>
      \<lparr>partition_num = - 1, err = 2\<rparr> =
     (\<lparr>partition_num = - 1, err = 0\<rparr>,
      [Log (Info_num_of_sectors 8),
       Register_blockpartition ''/dev/mmcsd0p/'' 0 ''/dev/mmcsd0'' 0 8 0])"
  by (simp add: partition_handler_def Let_def devname_template_def env_ok_def char_of_def)

subsection \<open>C7: name and block range of the registered sub-device\<close>

text \<open>
  Claim C7.  For an expected index \<open>i\<close> from 0 to 9 and an entry with that index, the
  callback registers the sub-device whose name is \<^verbatim>\<open>/dev/mmcsd0p\<close> followed by the
  decimal digit of \<open>i\<close> (the template with its last character replaced), with minor 0, on
  the parent \<^verbatim>\<open>/dev/mmcsd0\<close>, with the first block and the number of blocks of the
  entry; it marks the request found.
\<close>

theorem registered_device_name_and_range:
  assumes "i < 10" and "partition_num s = of_nat i" and "index part = of_nat i"
  shows "\<exists>st. partition_handler e part s =
           (s\<lparr>err := 0\<rparr>,
            [Log (Info_num_of_sectors (nblocks part)),
             Register_blockpartition (''/dev/mmcsd0p'' @ [''0123456789'' ! i]) 0 ''/dev/mmcsd0''
               (firstblock part) (nblocks part) st])"
  using assms
  by (simp add: partition_handler_def Let_def devname_template_def sint_digit digit_char)

theorem registered_device_name_and_range_witness:
  "(7::nat) < 10 \<and>
   fst (partition_handler env_ok \<lparr>index = 7, firstblock = 2048, nblocks = 4096\<rparr>
      \<lparr>partition_num = 7, err = 2\<rparr>) = \<lparr>partition_num = 7, err = 0\<rparr> \<and>
   snd (partition_handler env_ok \<lparr>index = 7, firstblock = 2048, nblocks = 4096\<rparr>
      \<lparr>partition_num = 7, err = 2\<rparr>) =
     [Log (Info_num_of_sectors 4096),
      Register_blockpartition ''/dev/mmcsd0p7'' 0 ''/dev/mmcsd0'' 2048 4096 0]"
proof -
  have i: "(7::nat) < 10" by simp
  have p: "partition_num \<lparr>partition_num = 7, err = 2\<rparr> = of_nat 7" by simp
  have q: "index \<lparr>index = 7, firstblock = 2048, nblocks = 4096\<rparr> = of_nat 7" by simp
  from registered_device_name_and_range [OF i p q, of env_ok] i
  show ?thesis by (auto simp: env_ok_def partition_handler_def Let_def)
qed

subsection \<open>C8: success of the mandatory mount\<close>

text \<open>
  Claim C8.  If the mount of the user-data file system returns zero, \<^verbatim>\<open>stm32_bringup\<close>
  returns \<open>OK\<close>, under every configuration and whatever the I2C tool, the sensor
  registration, the procfs mount and the controller returned.  Each of their failures leaves
  its error message in the trace: an I2C bus that cannot be obtained, an I2C bus whose
  registration fails, the sensor registration, the procfs mount, the storage controller.
  None of them stops the sequence: with the SD card section compiled in, the trace still ends
  with the call of the user-data mount.
\<close>

theorem mandatory_mount_success_returns_ok:
  assumes "nx_mount_ret e (Some ''/dev/mmcsd0p0'') ''/mnt/usrfs'' ''vfat'' = 0"
  shows "fst (stm32_bringup c e [a, b]) = OK \<and>
         (i2c_bus_enabled c bus \<and> \<not> i2cbus_initialize_ok e bus \<longrightarrow>
            Log (Err_failed_to_get_i2c bus) \<in> set (snd (snd (stm32_bringup c e [a, b])))) \<and>
         (i2c_bus_enabled c bus \<and> i2cbus_initialize_ok e bus \<and> sint (i2c_register_ret e bus) < 0 \<longrightarrow>
            Log (Err_failed_to_register_i2c bus (i2c_register_ret e bus))
              \<in> set (snd (snd (stm32_bringup c e [a, b])))) \<and>
         (CONFIG_SENSORS_MS56XX c \<and> sint (ms56xx_register_ret e) < 0 \<longrightarrow>
            Log (Err_failed_to_register_ms5607 (ms56xx_register_ret e))
              \<in> set (snd (snd (stm32_bringup c e [a, b])))) \<and>
         (CONFIG_FS_PROCFS c \<and>
          sint (nx_mount_ret e None (STM32_PROCFS_MOUNTPOINT c) ''procfs'') < 0 \<longrightarrow>
            Log (Err_failed_to_mount_proc (nx_mount_ret e None (STM32_PROCFS_MOUNTPOINT c) ''procfs''))
              \<in> set (snd (snd (stm32_bringup c e [a, b])))) \<and>
         (CONFIG_STM32H7_SDMMC c \<and> sint (sdio_initialize_ret e) < 0 \<longrightarrow>
            Log (Err_failed_to_register_sd (sdio_initialize_ret e))
              \<in> set (snd (snd (stm32_bringup c e [a, b])))) \<and>
         (CONFIG_STM32H7_SDMMC c \<longrightarrow>
            (\<exists>pre. snd (snd (stm32_bringup c e [a, b])) =
               pre @ [Nx_mount (Some ''/dev/mmcsd0p0'') ''/mnt/usrfs'' ''vfat'' 0 None]))"
proof (intro conjI impI)
  show "fst (stm32_bringup c e [a, b]) = OK"
    using assms by (simp add: stm32_bringup_unfold Let_def OK_def)
next
  assume h: "i2c_bus_enabled c bus \<and> \<not> i2cbus_initialize_ok e bus"
  then have "Log (Err_failed_to_get_i2c bus) \<in> set (stm32_i2c_register e bus)"
    by (simp add: stm32_i2c_register_def)
  with h i2c_register_in_bringup [of c bus e "[a, b]"]
  show "Log (Err_failed_to_get_i2c bus) \<in> set (snd (snd (stm32_bringup c e [a, b])))"
    by blast
next
  assume h: "i2c_bus_enabled c bus \<and> i2cbus_initialize_ok e bus \<and>
      sint (i2c_register_ret e bus) < 0"
  then have "Log (Err_failed_to_register_i2c bus (i2c_register_ret e bus))
      \<in> set (stm32_i2c_register e bus)"
    by (simp add: stm32_i2c_register_def Let_def)
  with h i2c_register_in_bringup [of c bus e "[a, b]"]
  show "Log (Err_failed_to_register_i2c bus (i2c_register_ret e bus))
      \<in> set (snd (snd (stm32_bringup c e [a, b])))"
    by blast
next
  assume "CONFIG_SENSORS_MS56XX c \<and> sint (ms56xx_register_ret e) < 0"
  then show "Log (Err_failed_to_register_ms5607 (ms56xx_register_ret e))
      \<in> set (snd (snd (stm32_bringup c e [a, b])))"
    by (simp add: stm32_bringup_unfold aux_events_def sensor_section_def Let_def)
next
  assume "CONFIG_FS_PROCFS c \<and>
      sint (nx_mount_ret e None (STM32_PROCFS_MOUNTPOINT c) ''procfs'') < 0"
  then show "Log (Err_failed_to_mount_proc
        (nx_mount_ret e None (STM32_PROCFS_MOUNTPOINT c) ''procfs''))
      \<in> set (snd (snd (stm32_bringup c e [a, b])))"
    by (simp add: stm32_bringup_unfold aux_events_def procfs_section_def Let_def)
next
  assume "CONFIG_STM32H7_SDMMC c \<and> sint (sdio_initialize_ret e) < 0"
  then show "Log (Err_failed_to_register_sd (sdio_initialize_ret e))
      \<in> set (snd (snd (stm32_bringup c e [a, b])))"
    by (simp add: stm32_bringup_unfold Let_def)
next
  assume s: "CONFIG_STM32H7_SDMMC c"
  have "snd (snd (stm32_bringup c e [a, b])) =
      (aux_events c e @ Sdio_initialize #
        (if sint (sdio_initialize_ret e) < 0
         then [Log (Err_failed_to_register_sd (sdio_initialize_ret e))] else []) @
        snd (discovery_loop e 0 [a, b])) @
      [Nx_mount (Some ''/dev/mmcsd0p0'') ''/mnt/usrfs'' ''vfat'' 0 None]"
    using assms s by (simp add: stm32_bringup_unfold Let_def)
  then show "\<exists>pre. snd (snd (stm32_bringup c e [a, b])) =
      pre @ [Nx_mount (Some ''/dev/mmcsd0p0'') ''/mnt/usrfs'' ''vfat'' 0 None]"
    by blast
qed

theorem mandatory_mount_success_returns_ok_witness:
  "nx_mount_ret env_aux_fail (Some ''/dev/mmcsd0p0'') ''/mnt/usrfs'' ''vfat'' = 0 \<and>
   i2c_bus_enabled cfg_all 1 \<and> \<not> i2cbus_initialize_ok env_aux_fail 1 \<and>
   CONFIG_SENSORS_MS56XX cfg_all \<and> sint (ms56xx_register_ret env_aux_fail) < 0 \<and>
   CONFIG_FS_PROCFS cfg_all \<and>
   sint (nx_mount_ret env_aux_fail None (STM32_PROCFS_MOUNTPOINT cfg_all) ''procfs'') < 0 \<and>
   CONFIG_STM32H7_SDMMC cfg_all \<and>
   fst (stm32_bringup cfg_all env_aux_fail partitions_init) = OK \<and>
   Log (Err_failed_to_get_i2c 1)
     \<in> set (snd (snd (stm32_bringup cfg_all env_aux_fail partitions_init))) \<and>
   Log (Err_failed_to_register_ms5607 (- 5))
     \<in> set (snd (snd (stm32_bringup cfg_all env_aux_fail partitions_init))) \<and>
   Log (Err_failed_to_mount_proc (- 12))
     \<in> set (snd (snd (stm32_bringup cfg_all env_aux_fail partitions_init))) \<and>
   nx_mount_ret env_aux_fail_late (Some ''/dev/mmcsd0p0'') ''/mnt/usrfs'' ''vfat'' = 0 \<and>
   i2cbus_initialize_ok env_aux_fail_late 1 \<and> sint (i2c_register_ret env_aux_fail_late 1) < 0 \<and>
   sint (sdio_initialize_ret env_aux_fail_late) < 0 \<and>
   fst (stm32_bringup cfg_all env_aux_fail_late partitions_init) = OK \<and>
   Log (Err_failed_to_register_i2c 1 (- 5))
     \<in> set (snd (snd (stm32_bringup cfg_all env_aux_fail_late partitions_init))) \<and>
   Log (Err_failed_to_register_sd (- 19))
     \<in> set (snd (snd (stm32_bringup cfg_all env_aux_fail_late partitions_init)))"
proof -
  have m: "nx_mount_ret env_aux_fail (Some ''/dev/mmcsd0p0'') ''/mnt/usrfs'' ''vfat'' = 0"
    by (simp add: env_aux_fail_def env_ok_def)
  have n: "nx_mount_ret env_aux_fail_late (Some ''/dev/mmcsd0p0'') ''/mnt/usrfs'' ''vfat'' = 0"
    by (simp add: env_aux_fail_late_def env_aux_fail_def env_ok_def)
  have en: "i2c_bus_enabled cfg_all 1"
    by (simp add: i2c_bus_enabled_def cfg_all_def)
  have early: "\<not> i2cbus_initialize_ok env_aux_fail 1"
      "sint (ms56xx_register_ret env_aux_fail) < 0"
      "sint (nx_mount_ret env_aux_fail None (STM32_PROCFS_MOUNTPOINT cfg_all) ''procfs'') < 0"
      "ms56xx_register_ret env_aux_fail = - 5"
      "nx_mount_ret env_aux_fail None (STM32_PROCFS_MOUNTPOINT cfg_all) ''procfs'' = - 12"
    by (simp_all add: env_aux_fail_def env_ok_def cfg_all_def)
  have late: "i2cbus_initialize_ok env_aux_fail_late 1"
      "sint (i2c_register_ret env_aux_fail_late 1) < 0"
      "sint (sdio_initialize_ret env_aux_fail_late) < 0"
      "i2c_register_ret env_aux_fail_late 1 = - 5"
      "sdio_initialize_ret env_aux_fail_late = - 19"
    by (simp_all add: env_aux_fail_late_def env_aux_fail_def env_ok_def)
  have cfg: "CONFIG_SENSORS_MS56XX cfg_all" "CONFIG_FS_PROCFS cfg_all"
      "CONFIG_STM32H7_SDMMC cfg_all"
    by (simp_all add: cfg_all_def)
  from mandatory_mount_success_returns_ok [OF m, of cfg_all _ _ 1] mandatory_mount_success_returns_ok [OF n, of cfg_all _ _ 1]
    m n en early late cfg
  show ?thesis by (simp add: partitions_init_def)
qed

subsection \<open>C9: one scan per request\<close>

text \<open>
  Claim C9.  With the SD card section compiled in, the calls of the partition parser made by
  \<^verbatim>\<open>stm32_bringup\<close> are exactly two: one for request 0, then one for request 1,
  whatever the scans report and whatever state the requests are in.
\<close>

theorem discovery_scans_once_per_request:
  assumes "CONFIG_STM32H7_SDMMC c"
  shows "filter is_parse (snd (snd (stm32_bringup c e [a, b]))) =
           [Parse_block_partition ''/dev/mmcsd0'' 0, Parse_block_partition ''/dev/mmcsd0'' 1]"
  using assms
  by (simp add: stm32_bringup_unfold Let_def filter_parse_aux filter_parse_discovery)

theorem discovery_scans_once_per_request_witness:
  "CONFIG_STM32H7_SDMMC cfg_all \<and>
   filter is_parse (snd (snd (stm32_bringup cfg_all env_ok partitions_init))) =
     [Parse_block_partition ''/dev/mmcsd0'' 0, Parse_block_partition ''/dev/mmcsd0'' 1]"
proof -
  have c: "CONFIG_STM32H7_SDMMC cfg_all" by (simp add: cfg_all_def)
  from discovery_scans_once_per_request [OF c, of env_ok] c
  show ?thesis by (simp add: partitions_init_def)
qed

subsection \<open>C10: the array of requests is static\<close>

text \<open>
  Claim C10.  The array \<^verbatim>\<open>partitions\<close> is initialized once and a later call of
  \<^verbatim>\<open>stm32_bringup\<close> starts from what the earlier call left.  If request \<open>i\<close> was
  found in a first call (environment \<open>e1\<close>) and the partition is absent in a second call
  (environment \<open>e2\<close>), the second call still leaves \<open>err = 0\<close> and reports the partition
  as registered, whereas a first call in \<open>e2\<close> reports that it did not register.
\<close>

theorem static_partitions_keep_earlier_result:
  assumes "CONFIG_STM32H7_SDMMC c" and "i < 2"
    and "\<exists>p\<in>set (partition_table e1 i). index p = of_nat i"
    and "\<not> (\<exists>p\<in>set (partition_table e2 i). index p = of_nat i)"
  shows "err (fst (snd (stm32_bringup c e1 partitions_init)) ! i) = 0 \<and>
         err (fst (snd (stm32_bringup c e2 (fst (snd (stm32_bringup c e1 partitions_init))))) ! i) = 0 \<and>
         filter is_report
           (snd (snd (stm32_bringup c e2 (fst (snd (stm32_bringup c e1 partitions_init)))))) ! i =
           Log (Info_partition_registered (of_nat i)) \<and>
         filter is_report (snd (snd (stm32_bringup c e2 partitions_init))) ! i =
           Log (Warn_partition_did_not_register (of_nat i))"
proof -
  define a where "a = fst (parse_block_partition (partition_table e1 0) (partition_handler e1)
                  \<lparr>partition_num = 0, err = ucast ENOENT\<rparr>)"
  define b where "b = fst (parse_block_partition (partition_table e1 1) (partition_handler e1)
                  \<lparr>partition_num = 1, err = ucast ENOENT\<rparr>)"
  have run1: "fst (snd (stm32_bringup c e1 partitions_init)) = [a, b]"
    using assms(1) by (simp add: partitions_init_def partitions_after_bringup a_def b_def)
  have num: "partition_num a = 0" "partition_num b = 1"
    by (simp_all add: a_def b_def parse_partition_num)
  have fresh: "filter is_report (snd (snd (stm32_bringup c e2 partitions_init))) =
      [Log (report (fst (parse_block_partition (partition_table e2 0) (partition_handler e2)
              \<lparr>partition_num = 0, err = ucast ENOENT\<rparr>))),
       Log (report (fst (parse_block_partition (partition_table e2 1) (partition_handler e2)
              \<lparr>partition_num = 1, err = ucast ENOENT\<rparr>)))]"
    using assms(1) by (simp add: partitions_init_def filter_report_bringup)
  from assms(2) have "i = 0 \<or> i = 1" by auto
  then show ?thesis
  proof
    assume i: "i = 0"
    with assms(3) have found: "err a = 0"
      by (simp add: a_def parse_err)
    from i assms(4) have absent: "\<forall>p\<in>set (partition_table e2 0). index p \<noteq> 0"
      by simp
    show ?thesis
      using assms(1) i found num absent
      by (simp add: run1 fresh partitions_after_bringup filter_report_bringup parse_err
          report_parse ENOENT_def)
  next
    assume i: "i = 1"
    with assms(3) have found: "err b = 0"
      by (simp add: b_def parse_err)
    from i assms(4) have absent: "\<forall>p\<in>set (partition_table e2 (Suc 0)). index p \<noteq> 1"
      by simp
    show ?thesis
      using assms(1) i found num absent
      by (simp add: run1 fresh partitions_after_bringup filter_report_bringup parse_err
          report_parse ENOENT_def)
  qed
qed

theorem static_partitions_keep_earlier_result_witness:
  "CONFIG_STM32H7_SDMMC cfg_all \<and> (0::nat) < 2 \<and>
   (\<exists>p\<in>set (partition_table env_ok 0). index p = of_nat 0) \<and>
   \<not> (\<exists>p\<in>set (partition_table env_no_card 0). index p = of_nat 0) \<and>
   filter is_report (snd (snd (stm32_bringup cfg_all env_no_card
       (fst (snd (stm32_bringup cfg_all env_ok partitions_init)))))) ! 0 =
     Log (Info_partition_registered 0) \<and>
   filter is_report (snd (snd (stm32_bringup cfg_all env_no_card partitions_init))) ! 0 =
     Log (Warn_partition_did_not_register 0)"
proof -
  have c: "CONFIG_STM32H7_SDMMC cfg_all" by (simp add: cfg_all_def)
  have i: "(0::nat) < 2" by simp
  have p: "\<exists>p\<in>set (partition_table env_ok 0). index p = of_nat 0"
    by (simp add: env_ok_def)
  have q: "\<not> (\<exists>p\<in>set (partition_table env_no_card 0). index p = of_nat 0)"
    by (simp add: env_no_card_def env_ok_def)
  from static_partitions_keep_earlier_result [OF c i p q] c i p q
  show ?thesis by simp
qed

end
